theory Spec2Isabelle
  imports Main "HOL-Library.AList" "HOL-Library.List_Lexorder"
begin

section \<open>Python values\<close>

text \<open>
  A Python \<open>str\<close> is a sequence of Unicode code points; it is modelled as the list of
  their numbers. \<open>py\<close> turns an ASCII literal into such a string.
\<close>

type_synonym pystr = "nat list"

definition py :: "string \<Rightarrow> pystr" where
  "py cs = map of_char cs"

text \<open>
  \<open>bool\<close> is a subclass of \<open>int\<close> in Python: \<open>isinstance(True, int)\<close> holds, and
  \<open>True\<close> counts as 1 and \<open>False\<close> as 0 in arithmetic and comparisons. A value that
  passes \<open>isinstance(v, int)\<close> is therefore a \<open>pyint\<close>: a proper integer or a bool.
\<close>

datatype pyint = PyInt int | PyBool bool

fun ival :: "pyint \<Rightarrow> int" where
  "ival (PyInt n) = n"
| "ival (PyBool b) = (if b then 1 else 0)"

text \<open>
  \<open>str(n)\<close>, and with it an f-string or \<open>json.dump\<close> that formats \<open>n\<close>, raises
  \<open>ValueError\<close> for an \<open>int\<close> of more than \<open>sys.int_max_str_digits\<close> decimal digits
  (4300 unless the interpreter is configured otherwise); the sign does not count. A bool
  formats as \<open>True\<close> or \<open>False\<close>.
\<close>

definition int_max_str_digits :: nat where
  "int_max_str_digits = 4300"

fun str_raises :: "pyint \<Rightarrow> bool" where
  "str_raises (PyInt n) = (10 ^ int_max_str_digits \<le> \<bar>n\<bar>)"
| "str_raises (PyBool b) = False"

text \<open>
  The values a caller can pass and \<open>json.load\<close> can return. A float is kept as a
  mantissa and a binary exponent (infinities and NaN behave like any other float
  here); the program only ever asks whether a value is a \<open>str\<close>, an \<open>int\<close> or a
  \<open>dict\<close>. A dict is the list of its items in iteration order.
\<close>

datatype pyval =
    PNone
  | PNum pyint
  | PFloat int int
  | PStr pystr
  | PList "pyval list"
  | PDict "(pyval \<times> pyval) list"

fun isinstance_str :: "pyval \<Rightarrow> bool" where
  "isinstance_str (PStr s) = True"
| "isinstance_str v = False"

fun isinstance_int :: "pyval \<Rightarrow> bool" where
  "isinstance_int (PNum q) = True"
| "isinstance_int v = False"

fun isinstance_dict :: "pyval \<Rightarrow> bool" where
  "isinstance_dict (PDict kvs) = True"
| "isinstance_dict v = False"

text \<open>
  The projections are only applied after the matching \<open>isinstance\<close> test has passed;
  their values elsewhere are never used.
\<close>

fun str_of :: "pyval \<Rightarrow> pystr" where
  "str_of (PStr s) = s"
| "str_of v = []"

fun int_of :: "pyval \<Rightarrow> pyint" where
  "int_of (PNum q) = q"
| "int_of v = PyInt 0"

fun items :: "pyval \<Rightarrow> (pyval \<times> pyval) list" where
  "items (PDict kvs) = kvs"
| "items v = []"

subsection \<open>\<open>str.strip()\<close>\<close>

text \<open>
  \<open>str.strip()\<close> without arguments removes leading and trailing whitespace, where
  whitespace is what \<open>str.isspace\<close> accepts: the code points U+0009 to U+000D,
  U+001C to U+0020, U+0085, U+00A0, U+1680, U+2000 to U+200A, U+2028, U+2029, U+202F,
  U+205F and U+3000.
\<close>

definition is_space :: "nat \<Rightarrow> bool" where
  "is_space c \<longleftrightarrow>
     (9 \<le> c \<and> c \<le> 13) \<or> (28 \<le> c \<and> c \<le> 32) \<or> c = 133 \<or> c = 160 \<or> c = 5760 \<or>
     (8192 \<le> c \<and> c \<le> 8202) \<or> c = 8232 \<or> c = 8233 \<or> c = 8239 \<or> c = 8287 \<or>
     c = 12288"

definition strip :: "pystr \<Rightarrow> pystr" where
  "strip s = rev (dropWhile is_space (rev (dropWhile is_space s)))"

section \<open>The inventory\<close>

text \<open>
  \<open>stock_data\<close> is a module-level \<open>dict\<close>. A Python dict keeps its items in insertion
  order, and \<open>check_low_items\<close> returns names in that order, so the store is the list of
  its items: assigning to a present key replaces the value in place, assigning to an
  absent key appends (\<open>AList.update\<close>), \<open>del\<close> removes the item (\<open>AList.delete\<close>) and
  a lookup is \<open>map_of\<close>. The keys of a dict are distinct.

  Every operation returns what the call does (a value, or the exception it raises)
  together with the store it leaves behind. Arguments that the code tests with
  \<open>isinstance\<close> are arbitrary Python values; default arguments (\<open>"default"\<close>, 0, 5,
  \<open>"inventory.json"\<close>) are passed explicitly. \<open>print_data\<close> only prints and is not
  modelled.
\<close>

type_synonym store = "(pystr \<times> pyint) list"

datatype error =
    ValueError string
  | JSONDecodeError
  | OSError

text \<open>\<open>json.JSONDecodeError\<close> is a subclass of \<open>ValueError\<close>.\<close>

fun is_ValueError :: "error \<Rightarrow> bool" where
  "is_ValueError (ValueError msg) = True"
| "is_ValueError JSONDecodeError = True"
| "is_ValueError OSError = False"

definition dict_get :: "store \<Rightarrow> pystr \<Rightarrow> pyint \<Rightarrow> pyint" where
  "dict_get d k dflt = (case map_of d k of None \<Rightarrow> dflt | Some v \<Rightarrow> v)"

text \<open>
  \<open>add_item\<close>. The sum \<open>stock_data.get(item, 0) + qty\<close> is a proper \<open>int\<close> even when an
  operand is a bool. After the store has been updated, the message for \<open>logs\<close> is built
  by the f-string \<open>f"{stamp}: Added {qty} of {item}"\<close>, which formats \<open>qty\<close>: for a
  \<open>qty\<close> of more than 4300 digits it raises \<open>ValueError\<close>, and the store keeps the
  update. Otherwise the message is appended and logged; the contents of \<open>logs\<close> and of
  the log are not modelled (the \<open>logging\<close> module reports a failure of its own on
  \<open>stderr\<close> and does not raise).
\<close>

definition add_item :: "store \<Rightarrow> pyval \<Rightarrow> pyval \<Rightarrow> (error + unit) \<times> store" where
  "add_item stock_data item qty =
     (if \<not> isinstance_str item \<or> strip (str_of item) = []
      then (Inl (ValueError ''item must be a nonempty string''), stock_data)
      else if \<not> isinstance_int qty
      then (Inl (ValueError ''qty must be an integer''), stock_data)
      else if ival (int_of qty) < 0
      then (Inl (ValueError ''qty must be nonnegative''), stock_data)
      else (let stock_data' =
                  AList.update (str_of item)
                    (PyInt (ival (dict_get stock_data (str_of item) (PyInt 0)) +
                            ival (int_of qty)))
                    stock_data
            in if str_raises (int_of qty)
               then (Inl (ValueError ''Exceeds the limit (4300 digits) for integer string conversion''),
                     stock_data')
               else (Inr (), stock_data')))"

text \<open>
  \<open>remove_item\<close>: \<open>stock_data[item] -= qty\<close> first stores the difference, then the
  entry is deleted when what is stored is \<open>\<le> 0\<close>. The key has just been assigned, so
  reading \<open>stock_data[item]\<close> back cannot raise \<open>KeyError\<close>. The messages go to
  \<open>logging\<close> only, which formats them itself and does not raise.
\<close>

definition remove_item :: "store \<Rightarrow> pyval \<Rightarrow> pyval \<Rightarrow> (error + unit) \<times> store" where
  "remove_item stock_data item qty =
     (if \<not> isinstance_str item \<or> strip (str_of item) = []
      then (Inl (ValueError ''item must be a nonempty string''), stock_data)
      else if \<not> isinstance_int qty \<or> ival (int_of qty) \<le> 0
      then (Inl (ValueError ''qty must be a positive integer''), stock_data)
      else (case map_of stock_data (str_of item) of
              None \<Rightarrow> (Inr (), stock_data)
            | Some old \<Rightarrow>
                (let stock_data' =
                       AList.update (str_of item) (PyInt (ival old - ival (int_of qty)))
                         stock_data
                 in if ival (dict_get stock_data' (str_of item) (PyInt 0)) \<le> 0
                    then (Inr (), AList.delete (str_of item) stock_data')
                    else (Inr (), stock_data'))))"

definition get_qty :: "store \<Rightarrow> pyval \<Rightarrow> (error + pyint) \<times> store" where
  "get_qty stock_data item =
     (if \<not> isinstance_str item \<or> strip (str_of item) = []
      then (Inl (ValueError ''item must be a nonempty string''), stock_data)
      else (Inr (dict_get stock_data (str_of item) (PyInt 0)), stock_data))"

definition check_low_items :: "store \<Rightarrow> pyval \<Rightarrow> (error + pystr list) \<times> store" where
  "check_low_items stock_data threshold =
     (if \<not> isinstance_int threshold \<or> ival (int_of threshold) < 0
      then (Inl (ValueError ''threshold must be nonnegative''), stock_data)
      else (Inr (map fst (filter (\<lambda>(name, qty). ival qty < ival (int_of threshold))
                            stock_data)),
            stock_data))"

section \<open>Files\<close>

text \<open>
  \<open>load_data\<close> and \<open>save_data\<close> reach the file system through \<open>Path.exists\<close>,
  \<open>Path.open\<close>, \<open>json.load\<close> and \<open>json.dump\<close>. The text of a file is represented by
  what \<open>json.load\<close> makes of it: a path holds nothing, or something that cannot be
  opened for reading (\<open>OSError\<close>), or text that \<open>json.load\<close> rejects (a
  \<open>JSONDecodeError\<close>; for an integer literal of more than 4300 digits a plain
  \<open>ValueError\<close>, which is treated alike), or a JSON document, given as the Python value
  it parses to. \<open>can_write\<close> tells whether \<open>open(path, "w")\<close> succeeds, and a file that
  has been written can be read back.
\<close>

datatype fnode = Unreadable | Undecodable | Json pyval

record fsys =
  files :: "pystr \<rightharpoonup> fnode"
  can_write :: "pystr \<Rightarrow> bool"

fun json_load :: "fnode \<Rightarrow> error + pyval" where
  "json_load Unreadable = Inl OSError"
| "json_load Undecodable = Inl JSONDecodeError"
| "json_load (Json v) = Inr v"

text \<open>
  \<open>stock_data.update(data)\<close> assigns the items of \<open>data\<close> one after the other. In
  \<open>load_data\<close> it follows \<open>stock_data.clear()\<close>, so it starts from the empty store; both
  run only after the two checks have passed.
\<close>

definition dict_update :: "store \<Rightarrow> (pyval \<times> pyval) list \<Rightarrow> store" where
  "dict_update d kvs = fold (\<lambda>(k, v). AList.update (str_of k) (int_of v)) kvs d"

definition load_data :: "fsys \<Rightarrow> store \<Rightarrow> pystr \<Rightarrow> (error + unit) \<times> store" where
  "load_data fs stock_data file_path =
     (case files fs file_path of
        None \<Rightarrow> (Inr (), [])
      | Some node \<Rightarrow>
          (case json_load node of
             Inl e \<Rightarrow> (Inl e, stock_data)
           | Inr data \<Rightarrow>
               if \<not> isinstance_dict data
               then (Inl (ValueError ''Invalid file format: not an object''), stock_data)
               else if \<not> list_all (\<lambda>(k, v). isinstance_str k \<and> isinstance_int v) (items data)
               then (Inl (ValueError ''File format must be str -> int mapping''), stock_data)
               else (Inr (), dict_update [] (items data))))"

text \<open>
  \<open>json.dump(stock_data, handle, indent=2, sort_keys=True)\<close> writes the items ordered by
  key; strings are compared code point by code point. With the default
  \<open>ensure_ascii=True\<close> every code point above U+007F is written as \<open>\uXXXX\<close> escapes, one
  for a code point up to U+FFFF (a lone surrogate included) and a surrogate pair for a
  higher one. \<open>json.load\<close> reads an escaped high surrogate (U+D800 to U+DBFF, 55296 to
  56319) that is directly followed by an escaped low surrogate (U+DC00 to U+DFFF, 56320
  to 57343) as the one code point they encode, scanning from the left. So a string that
  was written comes back as \<open>join_surrogates\<close> of it.
\<close>

definition is_high_surrogate :: "nat \<Rightarrow> bool" where
  "is_high_surrogate c \<longleftrightarrow> 55296 \<le> c \<and> c \<le> 56319"

definition is_low_surrogate :: "nat \<Rightarrow> bool" where
  "is_low_surrogate c \<longleftrightarrow> 56320 \<le> c \<and> c \<le> 57343"

fun join_surrogates :: "pystr \<Rightarrow> pystr" where
  "join_surrogates (c # d # cs) =
     (if is_high_surrogate c \<and> is_low_surrogate d
      then (65536 + (c - 55296) * 1024 + (d - 56320)) # join_surrogates cs
      else c # join_surrogates (d # cs))"
| "join_surrogates cs = cs"

text \<open>
  \<open>json.load\<close> builds the dict from the pairs of the object in the order of the text: a
  key that occurs again keeps its place and takes the later value.
\<close>

definition dict_of_pairs :: "(pyval \<times> pyval) list \<Rightarrow> (pyval \<times> pyval) list" where
  "dict_of_pairs kvs = fold (\<lambda>(k, v). AList.update k v) kvs []"

text \<open>What \<open>json.load\<close> parses from the text that \<open>json.dump\<close> has written for a store.\<close>

definition json_dump :: "store \<Rightarrow> pyval" where
  "json_dump d =
     PDict (dict_of_pairs (map (\<lambda>(k, v). (PStr (join_surrogates k), PNum v)) (sort_key fst d)))"

text \<open>
  \<open>save_data\<close>: \<open>open\<close> truncates the file, then \<open>json.dump\<close> writes the text piece by
  piece. It raises \<open>ValueError\<close> at the first quantity of more than 4300 digits, and the
  file is left with a prefix of the text, which is not JSON.
\<close>

definition save_data :: "fsys \<Rightarrow> store \<Rightarrow> pystr \<Rightarrow> (error + unit) \<times> fsys" where
  "save_data fs stock_data file_path =
     (if \<not> can_write fs file_path then (Inl OSError, fs)
      else if list_ex (\<lambda>(k, v). str_raises v) stock_data
      then (Inl (ValueError ''Exceeds the limit (4300 digits) for integer string conversion''),
            fs\<lparr>files := (files fs)(file_path \<mapsto> Undecodable)\<rparr>)
      else (Inr (), fs\<lparr>files := (files fs)(file_path \<mapsto> Json (json_dump stock_data))\<rparr>))"

section \<open>Properties of the store\<close>

definition all_positive :: "store \<Rightarrow> bool" where
  "all_positive d = list_all (\<lambda>(k, v). 0 < ival v) d"

text \<open>No high surrogate of the string is directly followed by a low surrogate.\<close>

fun surrogate_pair_free :: "pystr \<Rightarrow> bool" where
  "surrogate_pair_free (c # d # cs) \<longleftrightarrow>
     \<not> (is_high_surrogate c \<and> is_low_surrogate d) \<and> surrogate_pair_free (d # cs)"
| "surrogate_pair_free cs \<longleftrightarrow> True"

definition valid_item :: "pyval \<Rightarrow> bool" where
  "valid_item item \<longleftrightarrow> isinstance_str item \<and> strip (str_of item) \<noteq> []"

text \<open>What a call returned is an exception of class \<open>ValueError\<close>.\<close>

fun raised_ValueError :: "error + 'a \<Rightarrow> bool" where
  "raised_ValueError (Inl e) = is_ValueError e"
| "raised_ValueError (Inr x) = False"

subsection \<open>Formatting small integers\<close>

lemma limit_above_small: "(n::int) < 1000 \<Longrightarrow> \<not> 10 ^ int_max_str_digits \<le> n"
proof -
  assume small: "n < 1000"
  have "(10::int) ^ 3 \<le> 10 ^ int_max_str_digits"
    by (rule power_increasing) (simp_all add: int_max_str_digits_def)
  with small show ?thesis
    by simp
qed

subsection \<open>Lookups and stripping\<close>

lemma absent_map_of: "k \<notin> fst ` set d \<Longrightarrow> map_of d k = None"
  by (simp add: map_of_eq_None_iff)

lemma strip_strip: "strip (strip s) = strip s"
proof -
  define t where "t = dropWhile is_space s"
  define u where "u = dropWhile is_space (rev t)"
  have "dropWhile is_space (rev u) = rev u"
  proof (cases "u = []")
    case True
    then show ?thesis by simp
  next
    case False
    have "rev t = takeWhile is_space (rev t) @ u"
      by (simp add: u_def)
    then have "last (rev t) = last u"
      using False by (metis last_appendR)
    moreover have "t \<noteq> []"
      using False by (auto simp: u_def)
    ultimately have "last u = hd t"
      by (simp add: last_rev)
    moreover have "\<not> is_space (hd t)"
      using \<open>t \<noteq> []\<close> unfolding t_def by (rule hd_dropWhile)
    ultimately have "\<not> is_space (hd (rev u))"
      using False by (simp add: hd_rev)
    then show ?thesis
      by (simp add: dropWhile_eq_self_iff)
  qed
  moreover have "dropWhile is_space u = u"
    by (simp add: u_def)
  moreover have "strip s = rev u"
    by (simp add: strip_def t_def u_def)
  ultimately show ?thesis
    by (simp add: strip_def)
qed

subsection \<open>Strictly positive quantities\<close>

lemma all_positive_update:
  "all_positive d \<Longrightarrow> 0 < ival v \<Longrightarrow> all_positive (AList.update k v d)"
  by (induction d) (auto simp: all_positive_def)

lemma all_positive_delete: "all_positive d \<Longrightarrow> all_positive (AList.delete k d)"
  by (induction d) (auto simp: all_positive_def)

lemma all_positive_map_of: "all_positive d \<Longrightarrow> map_of d k = Some v \<Longrightarrow> 0 < ival v"
  by (induction d) (auto simp: all_positive_def split: if_splits)

lemma all_positive_remove_item:
  "all_positive d \<Longrightarrow> all_positive (snd (remove_item d item qty))"
  by (auto simp: remove_item_def Let_def dict_get_def update_conv' delete_update_same
      all_positive_delete all_positive_update split: option.splits)

lemma all_positive_add_item:
  "all_positive d \<Longrightarrow> 0 < ival (int_of qty) \<or> map_of d (str_of item) \<noteq> None \<Longrightarrow>
   all_positive (snd (add_item d item qty))"
  by (auto simp: add_item_def Let_def dict_get_def dest: all_positive_map_of
      split: option.splits intro!: all_positive_update)

lemma all_positive_dict_update:
  "all_positive d \<Longrightarrow> list_all (\<lambda>(k, v). 0 < ival (int_of v)) kvs \<Longrightarrow>
   all_positive (dict_update d kvs)"
  unfolding dict_update_def
  by (induction kvs arbitrary: d) (auto simp: all_positive_update)

subsection \<open>Saving and loading\<close>

lemma update_absent: "k \<notin> fst ` set d \<Longrightarrow> AList.update k v d = d @ [(k, v)]"
  by (induction d) auto

lemma fold_update_distinct:
  "distinct (map fst (d @ kvs)) \<Longrightarrow> fold (\<lambda>(k, v). AList.update k v) kvs d = d @ kvs"
proof (induction kvs arbitrary: d)
  case Nil
  then show ?case by simp
next
  case (Cons kv kvs)
  obtain k v where kv: "kv = (k, v)"
    by (cases kv)
  from Cons.prems have absent: "k \<notin> fst ` set d"
    by (auto simp: kv)
  from Cons.prems have "distinct (map fst ((d @ [(k, v)]) @ kvs))"
    by (simp add: kv)
  then have "fold (\<lambda>(k, v). AList.update k v) kvs (d @ [(k, v)]) = (d @ [(k, v)]) @ kvs"
    by (rule Cons.IH)
  then show ?case
    by (simp add: kv update_absent[OF absent])
qed

lemma join_surrogates_id: "surrogate_pair_free s \<Longrightarrow> join_surrogates s = s"
  by (induction s rule: join_surrogates.induct) auto

lemma dict_of_pairs_distinct: "distinct (map fst kvs) \<Longrightarrow> dict_of_pairs kvs = kvs"
  using fold_update_distinct [of "[]" kvs] by (simp add: dict_of_pairs_def)

lemma json_dump_pair_free:
  assumes "distinct (map fst sd)"
      and "\<forall>k \<in> fst ` set sd. surrogate_pair_free k"
  shows "json_dump sd = PDict (map (\<lambda>(k, v). (PStr k, PNum v)) (sort_key fst sd))"
proof -
  have "map (\<lambda>(k, v). (PStr (join_surrogates k), PNum v)) (sort_key fst sd) =
        map (\<lambda>(k, v). (PStr k, PNum v)) (sort_key fst sd)"
    using assms(2) by (auto simp: join_surrogates_id)
  moreover have "distinct (map fst (map (\<lambda>(k, v). (PStr k, PNum v)) (sort_key fst sd)))"
    using assms(1) by (simp add: distinct_map comp_def case_prod_unfold inj_on_def)
  ultimately show ?thesis
    unfolding json_dump_def by (simp only: dict_of_pairs_distinct)
qed

lemma dict_update_pairs:
  "dict_update d (map (\<lambda>(k, v). (PStr k, PNum v)) kvs) =
   fold (\<lambda>(k, v). AList.update k v) kvs d"
  by (simp add: dict_update_def fold_map comp_def case_prod_unfold)

lemma load_json_dump:
  assumes "distinct (map fst sd)"
      and "\<forall>k \<in> fst ` set sd. surrogate_pair_free k"
  shows "dict_update [] (items (json_dump sd)) = sort_key fst sd"
proof -
  have "distinct (map fst ([] @ sort_key fst sd))"
    using assms(1) by (simp add: distinct_map)
  then have "fold (\<lambda>(k, v). AList.update k v) (sort_key fst sd) [] = [] @ sort_key fst sd"
    by (rule fold_update_distinct)
  then show ?thesis
    by (simp add: json_dump_pair_free[OF assms] dict_update_pairs)
qed

lemma json_dump_well_typed:
  assumes "distinct (map fst sd)"
      and "\<forall>k \<in> fst ` set sd. surrogate_pair_free k"
  shows "list_all (\<lambda>(k, v). isinstance_str k \<and> isinstance_int v) (items (json_dump sd))"
  by (simp add: json_dump_pair_free[OF assms] list_all_iff case_prod_unfold)

subsection \<open>The keys of the store stay distinct\<close>

lemma distinct_dict_update:
  "distinct (map fst d) \<Longrightarrow> distinct (map fst (dict_update d kvs))"
  unfolding dict_update_def
  by (induction kvs arbitrary: d) (auto simp: distinct_update)

lemma distinct_add_item:
  "distinct (map fst d) \<Longrightarrow> distinct (map fst (snd (add_item d item qty)))"
  by (simp add: add_item_def Let_def distinct_update)

lemma distinct_remove_item:
  "distinct (map fst d) \<Longrightarrow> distinct (map fst (snd (remove_item d item qty)))"
  by (simp add: remove_item_def Let_def distinct_update distinct_delete split: option.splits)

lemma distinct_load_data:
  "distinct (map fst d) \<Longrightarrow> distinct (map fst (snd (load_data fs d path)))"
  by (simp add: load_data_def distinct_dict_update split: option.splits sum.splits)

subsection \<open>Sample runs\<close>

text \<open>The calls of \<open>main\<close>, up to the report.\<close>

lemma main_scenario:
  "snd (remove_item (snd (remove_item (snd (add_item (snd (add_item []
      (PStr (py ''apple'')) (PNum (PyInt 10))))
      (PStr (py ''banana'')) (PNum (PyInt 2))))
      (PStr (py ''apple'')) (PNum (PyInt 3))))
      (PStr (py ''orange'')) (PNum (PyInt 1))) =
   [(py ''apple'', PyInt 7), (py ''banana'', PyInt 2)]"
  "get_qty [(py ''apple'', PyInt 7), (py ''banana'', PyInt 2)] (PStr (py ''apple'')) =
     (Inr (PyInt 7), [(py ''apple'', PyInt 7), (py ''banana'', PyInt 2)])"
  "check_low_items [(py ''apple'', PyInt 7), (py ''banana'', PyInt 2)] (PNum (PyInt 5)) =
     (Inr [py ''banana''], [(py ''apple'', PyInt 7), (py ''banana'', PyInt 2)])"
  by (simp_all add: add_item_def Let_def remove_item_def get_qty_def check_low_items_def
      dict_get_def limit_above_small py_def strip_def is_space_def)

text \<open>A file that cannot be opened or decoded leaves the store as it was.\<close>

lemma load_data_unreadable:
  "files fs path = Some Unreadable \<Longrightarrow> load_data fs sd path = (Inl OSError, sd)"
  "files fs path = Some Undecodable \<Longrightarrow> load_data fs sd path = (Inl JSONDecodeError, sd)"
  by (simp_all add: load_data_def)

text \<open>
  A quantity of more than 4300 digits: \<open>add_item\<close> raises after it has updated the store,
  and \<open>save_data\<close> raises and leaves a file that \<open>load_data\<close> cannot decode.
\<close>

lemma add_item_long_qty:
  "add_item [] (PStr (py ''apple'')) (PNum (PyInt (10 ^ int_max_str_digits))) =
   (Inl (ValueError ''Exceeds the limit (4300 digits) for integer string conversion''),
    [(py ''apple'', PyInt (10 ^ int_max_str_digits))])"
  by (simp add: add_item_def Let_def dict_get_def py_def strip_def is_space_def)

lemma save_data_long_qty:
  assumes "can_write fs path" and "(k, v) \<in> set sd" and "str_raises v"
  shows "raised_ValueError (fst (save_data fs sd path)) \<and>
         files (snd (save_data fs sd path)) path = Some Undecodable"
proof -
  from assms(2,3) have "list_ex (\<lambda>(k, v). str_raises v) sd"
    by (auto simp: list_ex_iff)
  with assms(1) show ?thesis
    by (simp add: save_data_def)
qed

section \<open>The claims\<close>

text \<open>
  C1, as amended. The claim that no reachable store holds a quantity \<open>\<le> 0\<close> fails:
  \<open>add_item\<close> accepts \<open>qty = 0\<close> and then stores an absent item with quantity 0, and
  \<open>load_data\<close> installs whatever integers the file holds. What holds from a store whose
  quantities are all strictly positive: \<open>remove_item\<close> keeps them strictly positive (an
  entry that would drop to \<open>\<le> 0\<close> is deleted); \<open>add_item\<close> keeps them strictly positive
  when \<open>qty > 0\<close> or the item is already present; \<open>load_data\<close> keeps them strictly
  positive when every quantity in the file it reads is strictly positive.
\<close>

theorem positive_quantities_preserved:
  assumes "all_positive sd"
  shows "all_positive (snd (remove_item sd item qty)) \<and>
         (0 < ival (int_of qty) \<or> map_of sd (str_of item) \<noteq> None \<longrightarrow>
            all_positive (snd (add_item sd item qty))) \<and>
         ((\<forall>data. files fs path = Some (Json data) \<longrightarrow>
              list_all (\<lambda>(k, v). 0 < ival (int_of v)) (items data)) \<longrightarrow>
            all_positive (snd (load_data fs sd path)))"
proof (intro conjI impI)
  show "all_positive (snd (remove_item sd item qty))"
    using assms by (rule all_positive_remove_item)
next
  assume "0 < ival (int_of qty) \<or> map_of sd (str_of item) \<noteq> None"
  with assms show "all_positive (snd (add_item sd item qty))"
    by (rule all_positive_add_item)
next
  assume content: "\<forall>data. files fs path = Some (Json data) \<longrightarrow>
              list_all (\<lambda>(k, v). 0 < ival (int_of v)) (items data)"
  have empty: "all_positive []"
    by (simp add: all_positive_def)
  show "all_positive (snd (load_data fs sd path))"
  proof (cases "files fs path")
    case None
    then show ?thesis
      by (simp add: load_data_def empty)
  next
    case (Some node)
    show ?thesis
    proof (cases node)
      case (Json data)
      with Some content have "list_all (\<lambda>(k, v). 0 < ival (int_of v)) (items data)"
        by simp
      with empty have "all_positive (dict_update [] (items data))"
        by (rule all_positive_dict_update)
      then show ?thesis
        using assms by (simp add: load_data_def Some Json)
    qed (use assms in \<open>simp_all add: load_data_def Some\<close>)
  qed
qed

theorem positive_quantities_preserved_witness:
  "all_positive [(py ''apple'', PyInt 10)] \<and>
   snd (remove_item [(py ''apple'', PyInt 10)] (PStr (py ''apple'')) (PNum (PyInt 3)))
     = [(py ''apple'', PyInt 7)] \<and>
   all_positive (snd (remove_item [(py ''apple'', PyInt 10)] (PStr (py ''apple'')) (PNum (PyInt 3)))) \<and>
   0 < ival (int_of (PNum (PyInt 3))) \<and>
   all_positive (snd (add_item [(py ''apple'', PyInt 10)] (PStr (py ''apple'')) (PNum (PyInt 3)))) \<and>
   files \<lparr>files = [py ''inventory.json'' \<mapsto> Json (PDict [(PStr (py ''banana''), PNum (PyInt 2))])],
          can_write = (\<lambda>p. True)\<rparr> (py ''inventory.json'')
     = Some (Json (PDict [(PStr (py ''banana''), PNum (PyInt 2))])) \<and>
   list_all (\<lambda>(k, v). 0 < ival (int_of v)) (items (PDict [(PStr (py ''banana''), PNum (PyInt 2))])) \<and>
   all_positive (snd (load_data
       \<lparr>files = [py ''inventory.json'' \<mapsto> Json (PDict [(PStr (py ''banana''), PNum (PyInt 2))])],
        can_write = (\<lambda>p. True)\<rparr> [(py ''apple'', PyInt 10)] (py ''inventory.json'')))"
  using positive_quantities_preserved [of "[(py ''apple'', PyInt 10)]" "PStr (py ''apple'')"
      "PNum (PyInt 3)"
      "\<lparr>files = [py ''inventory.json'' \<mapsto> Json (PDict [(PStr (py ''banana''), PNum (PyInt 2))])],
        can_write = (\<lambda>p. True)\<rparr>" "py ''inventory.json''"]
  by (simp add: all_positive_def remove_item_def add_item_def Let_def limit_above_small py_def
      strip_def is_space_def dict_get_def)

text \<open>
  C1, counterexample: on the empty store, \<open>add_item("apple", 0)\<close> succeeds and leaves
  the entry \<open>"apple": 0\<close> behind.
\<close>

theorem add_item_zero_breaks_positive:
  "all_positive [] \<and>
   add_item [] (PStr (py ''apple'')) (PNum (PyInt 0)) = (Inr (), [(py ''apple'', PyInt 0)]) \<and>
   \<not> all_positive (snd (add_item [] (PStr (py ''apple'')) (PNum (PyInt 0))))"
  by (simp add: add_item_def Let_def all_positive_def py_def strip_def is_space_def
      dict_get_def limit_above_small)



text \<open>
  C3, as amended. The claim fails for an item name in which a high surrogate is directly
  followed by a low surrogate: \<open>json.dump\<close> writes the two as two escapes and
  \<open>json.load\<close> reads them back as one code point, so the name changes (and may fall
  together with another one). What holds: for every store (a dict: its keys are distinct)
  whose names have no high surrogate directly followed by a low surrogate and whose
  quantities have at most 4300 digits, \<open>save_data(path)\<close> on a path that can be written
  succeeds, and a following \<open>load_data(path)\<close> succeeds and leaves a store with exactly
  the items of the saved one, whatever the store held when \<open>load_data\<close> was called.
\<close>

theorem save_then_load_roundtrip:
  assumes "distinct (map fst sd)"
      and "\<forall>(k, v) \<in> set sd. surrogate_pair_free k \<and> \<not> str_raises v"
      and "can_write fs path"
  shows "fst (save_data fs sd path) = Inr () \<and>
         fst (load_data (snd (save_data fs sd path)) cur path) = Inr () \<and>
         set (snd (load_data (snd (save_data fs sd path)) cur path)) = set sd"
proof -
  from assms(2) have keys: "\<forall>k \<in> fst ` set sd. surrogate_pair_free k"
    by auto
  from assms(2) have "\<not> list_ex (\<lambda>(k, v). str_raises v) sd"
    by (auto simp: list_ex_iff)
  with assms(3) have s: "save_data fs sd path =
      (Inr (), fs\<lparr>files := (files fs)(path \<mapsto> Json (json_dump sd))\<rparr>)"
    by (simp add: save_data_def)
  have d: "isinstance_dict (json_dump sd)"
    by (simp add: json_dump_def)
  have "load_data (snd (save_data fs sd path)) cur path = (Inr (), sort_key fst sd)"
    by (simp add: s load_data_def d json_dump_well_typed[OF assms(1) keys]
        load_json_dump[OF assms(1) keys])
  then show ?thesis
    by (simp add: s)
qed

theorem save_then_load_roundtrip_witness:
  "distinct (map fst [(py ''banana'', PyInt 2), (py ''apple'', PyInt 7)]) \<and>
   surrogate_pair_free (py ''banana'') \<and> \<not> str_raises (PyInt 2) \<and>
   surrogate_pair_free (py ''apple'') \<and> \<not> str_raises (PyInt 7) \<and>
   can_write \<lparr>files = Map.empty, can_write = (\<lambda>p. True)\<rparr> (py ''inventory.json'') \<and>
   fst (save_data \<lparr>files = Map.empty, can_write = (\<lambda>p. True)\<rparr>
          [(py ''banana'', PyInt 2), (py ''apple'', PyInt 7)] (py ''inventory.json'')) = Inr () \<and>
   fst (load_data (snd (save_data \<lparr>files = Map.empty, can_write = (\<lambda>p. True)\<rparr>
          [(py ''banana'', PyInt 2), (py ''apple'', PyInt 7)] (py ''inventory.json'')))
          [] (py ''inventory.json'')) = Inr () \<and>
   set (snd (load_data (snd (save_data \<lparr>files = Map.empty, can_write = (\<lambda>p. True)\<rparr>
          [(py ''banana'', PyInt 2), (py ''apple'', PyInt 7)] (py ''inventory.json'')))
          [] (py ''inventory.json''))) = {(py ''banana'', PyInt 2), (py ''apple'', PyInt 7)}"
  using save_then_load_roundtrip [of "[(py ''banana'', PyInt 2), (py ''apple'', PyInt 7)]"
      "\<lparr>files = Map.empty, can_write = (\<lambda>p. True)\<rparr>" "py ''inventory.json''" "[]"]
  by (simp add: py_def limit_above_small is_high_surrogate_def)

text \<open>
  C3, counterexample: the store \<open>{"\ud83d\ude00": 1}\<close>, whose one name consists of the
  two code points U+D83D (55357) and U+DE00 (56832), is saved and loaded without error
  and comes back as \<open>{"\U0001f600": 1}\<close>, with the single code point 128512 as name.
\<close>

theorem save_then_load_joins_surrogates:
  "valid_item (PStr [55357, 56832]) \<and> 0 \<le> ival (PyInt 1) \<and>
   fst (save_data \<lparr>files = Map.empty, can_write = (\<lambda>p. True)\<rparr>
          [([55357, 56832], PyInt 1)] (py ''inventory.json'')) = Inr () \<and>
   load_data (snd (save_data \<lparr>files = Map.empty, can_write = (\<lambda>p. True)\<rparr>
          [([55357, 56832], PyInt 1)] (py ''inventory.json'')))
          [([55357, 56832], PyInt 1)] (py ''inventory.json'') =
     (Inr (), [([128512], PyInt 1)]) \<and>
   set [([128512], PyInt 1)] \<noteq> set [([55357, 56832], PyInt 1)]"
  by (simp add: valid_item_def strip_def is_space_def save_data_def load_data_def json_dump_def
      dict_of_pairs_def dict_update_def is_high_surrogate_def is_low_surrogate_def
      limit_above_small py_def)

text \<open>
  C4: invalid arguments raise \<open>ValueError\<close> and leave the store as it was. An item that
  is not a string or is empty after stripping is rejected by \<open>add_item\<close>,
  \<open>remove_item\<close> and \<open>get_qty\<close>; a quantity that is not an \<open>int\<close> or is negative by
  \<open>add_item\<close>; a quantity that is not an \<open>int\<close> or is \<open>\<le> 0\<close> by \<open>remove_item\<close>; a
  threshold that is not an \<open>int\<close> or is negative by \<open>check_low_items\<close>. An \<open>int\<close> is
  what \<open>isinstance(v, int)\<close> accepts, which includes the bools.
\<close>

theorem invalid_arguments_rejected:
  "(\<not> valid_item item \<longrightarrow>
      raised_ValueError (fst (add_item sd item qty)) \<and> snd (add_item sd item qty) = sd \<and>
      raised_ValueError (fst (remove_item sd item qty)) \<and> snd (remove_item sd item qty) = sd \<and>
      raised_ValueError (fst (get_qty sd item)) \<and> snd (get_qty sd item) = sd) \<and>
   (\<not> isinstance_int qty \<or> ival (int_of qty) < 0 \<longrightarrow>
      raised_ValueError (fst (add_item sd item qty)) \<and> snd (add_item sd item qty) = sd) \<and>
   (\<not> isinstance_int qty \<or> ival (int_of qty) \<le> 0 \<longrightarrow>
      raised_ValueError (fst (remove_item sd item qty)) \<and> snd (remove_item sd item qty) = sd) \<and>
   (\<not> isinstance_int threshold \<or> ival (int_of threshold) < 0 \<longrightarrow>
      raised_ValueError (fst (check_low_items sd threshold)) \<and>
      snd (check_low_items sd threshold) = sd)"
  by (simp add: valid_item_def add_item_def remove_item_def get_qty_def check_low_items_def)

theorem invalid_arguments_rejected_witness:
  "\<not> valid_item (PStr (py ''  '')) \<and>
   raised_ValueError (fst (add_item [(py ''apple'', PyInt 10)] (PStr (py ''  '')) (PNum (PyInt 1)))) \<and>
   snd (add_item [(py ''apple'', PyInt 10)] (PStr (py ''  '')) (PNum (PyInt 1))) =
     [(py ''apple'', PyInt 10)] \<and>
   raised_ValueError (fst (remove_item [(py ''apple'', PyInt 10)] (PStr (py ''  '')) (PNum (PyInt 1)))) \<and>
   raised_ValueError (fst (get_qty [(py ''apple'', PyInt 10)] (PStr (py ''  '')))) \<and>
   ival (int_of (PNum (PyInt (- 1)))) < 0 \<and>
   raised_ValueError (fst (add_item [(py ''apple'', PyInt 10)] (PStr (py ''apple'')) (PNum (PyInt (- 1))))) \<and>
   snd (add_item [(py ''apple'', PyInt 10)] (PStr (py ''apple'')) (PNum (PyInt (- 1)))) =
     [(py ''apple'', PyInt 10)] \<and>
   raised_ValueError (fst (remove_item [(py ''apple'', PyInt 10)] (PStr (py ''apple'')) (PNum (PyInt (- 1))))) \<and>
   snd (remove_item [(py ''apple'', PyInt 10)] (PStr (py ''apple'')) (PNum (PyInt (- 1)))) =
     [(py ''apple'', PyInt 10)] \<and>
   raised_ValueError (fst (check_low_items [(py ''apple'', PyInt 10)] (PNum (PyInt (- 1))))) \<and>
   snd (check_low_items [(py ''apple'', PyInt 10)] (PNum (PyInt (- 1)))) =
     [(py ''apple'', PyInt 10)] \<and>
   \<not> isinstance_int (PFloat 3 (- 1)) \<and>
   raised_ValueError (fst (add_item [(py ''apple'', PyInt 10)] (PStr (py ''apple'')) (PFloat 3 (- 1))))"
  using invalid_arguments_rejected [of "PStr (py ''  '')" "[(py ''apple'', PyInt 10)]"
      "PNum (PyInt 1)" "PNum (PyInt (- 1))"]
    invalid_arguments_rejected [of "PStr (py ''apple'')" "[(py ''apple'', PyInt 10)]"
      "PNum (PyInt (- 1))" "PNum (PyInt (- 1))"]
    invalid_arguments_rejected [of "PStr (py ''apple'')" "[(py ''apple'', PyInt 10)]"
      "PFloat 3 (- 1)" "PNum (PyInt (- 1))"]
  by (simp add: valid_item_def py_def strip_def is_space_def)

text \<open>
  C5: for a valid item name that is present in the store and an integer \<open>qty > 0\<close> that is
  at least the stored quantity, \<open>remove_item(item, qty)\<close> succeeds and deletes the entry,
  leaving every other entry alone, and \<open>get_qty(item)\<close> then returns 0.
\<close>

theorem remove_item_at_least_stored:
  assumes "valid_item item"
      and "map_of sd (str_of item) = Some cur"
      and "isinstance_int qty" and "0 < ival (int_of qty)"
      and "ival cur \<le> ival (int_of qty)"
  shows "remove_item sd item qty = (Inr (), AList.delete (str_of item) sd) \<and>
         str_of item \<notin> fst ` set (snd (remove_item sd item qty)) \<and>
         get_qty (snd (remove_item sd item qty)) item =
           (Inr (PyInt 0), snd (remove_item sd item qty))"
proof -
  have r: "remove_item sd item qty = (Inr (), AList.delete (str_of item) sd)"
    using assms
    by (simp add: valid_item_def remove_item_def dict_get_def update_conv' delete_update_same)
  have "map_of (AList.delete (str_of item) sd) (str_of item) = None"
    by (simp add: delete_conv')
  then have "get_qty (AList.delete (str_of item) sd) item =
      (Inr (PyInt 0), AList.delete (str_of item) sd)"
    using assms(1) by (simp add: valid_item_def get_qty_def dict_get_def)
  then show ?thesis
    by (simp add: r delete_notin_dom)
qed

theorem remove_item_at_least_stored_witness:
  "valid_item (PStr (py ''apple'')) \<and>
   map_of [(py ''apple'', PyInt 7), (py ''banana'', PyInt 2)] (str_of (PStr (py ''apple''))) =
     Some (PyInt 7) \<and>
   isinstance_int (PNum (PyInt 9)) \<and> 0 < ival (int_of (PNum (PyInt 9))) \<and>
   ival (PyInt 7) \<le> ival (int_of (PNum (PyInt 9))) \<and>
   remove_item [(py ''apple'', PyInt 7), (py ''banana'', PyInt 2)] (PStr (py ''apple''))
       (PNum (PyInt 9)) = (Inr (), [(py ''banana'', PyInt 2)]) \<and>
   get_qty (snd (remove_item [(py ''apple'', PyInt 7), (py ''banana'', PyInt 2)]
       (PStr (py ''apple'')) (PNum (PyInt 9)))) (PStr (py ''apple'')) =
     (Inr (PyInt 0), [(py ''banana'', PyInt 2)])"
  using remove_item_at_least_stored [of "PStr (py ''apple'')"
      "[(py ''apple'', PyInt 7), (py ''banana'', PyInt 2)]" "PyInt 7" "PNum (PyInt 9)"]
  by (simp add: valid_item_def get_qty_def dict_get_def py_def strip_def is_space_def)

text \<open>
  C6: for a valid item name that is absent from the store and an integer \<open>qty > 0\<close>,
  \<open>remove_item(item, qty)\<close> returns without raising and leaves the whole store as it
  was; in particular no entry is created.
\<close>

theorem remove_item_absent_noop:
  assumes "valid_item item"
      and "str_of item \<notin> fst ` set sd"
      and "isinstance_int qty" and "0 < ival (int_of qty)"
  shows "remove_item sd item qty = (Inr (), sd)"
  using assms by (simp add: valid_item_def remove_item_def absent_map_of)

theorem remove_item_absent_noop_witness:
  "valid_item (PStr (py ''orange'')) \<and>
   str_of (PStr (py ''orange'')) \<notin> fst ` set [(py ''apple'', PyInt 7), (py ''banana'', PyInt 2)] \<and>
   isinstance_int (PNum (PyInt 1)) \<and> 0 < ival (int_of (PNum (PyInt 1))) \<and>
   remove_item [(py ''apple'', PyInt 7), (py ''banana'', PyInt 2)] (PStr (py ''orange''))
       (PNum (PyInt 1)) = (Inr (), [(py ''apple'', PyInt 7), (py ''banana'', PyInt 2)])"
  using remove_item_absent_noop [of "PStr (py ''orange'')"
      "[(py ''apple'', PyInt 7), (py ''banana'', PyInt 2)]" "PNum (PyInt 1)"]
  by (simp add: valid_item_def py_def strip_def is_space_def)

text \<open>
  C7: for an integer \<open>threshold \<ge> 0\<close>, \<open>check_low_items(threshold)\<close> returns a list whose
  elements are exactly the item names with a stored quantity strictly below the
  threshold, and leaves the store as it was; on the empty store the list is empty.
\<close>

theorem check_low_items_exact:
  assumes "isinstance_int threshold" and "0 \<le> ival (int_of threshold)"
      and "distinct (map fst sd)"
  shows "(\<exists>names. check_low_items sd threshold = (Inr names, sd) \<and>
            set names = {k. \<exists>v. map_of sd k = Some v \<and> ival v < ival (int_of threshold)}) \<and>
         check_low_items [] threshold = (Inr [], [])"
  using assms by (force simp: check_low_items_def image_iff)

theorem check_low_items_exact_witness:
  "isinstance_int (PNum (PyInt 5)) \<and> 0 \<le> ival (int_of (PNum (PyInt 5))) \<and>
   distinct (map fst [(py ''apple'', PyInt 7), (py ''banana'', PyInt 2)]) \<and>
   check_low_items [(py ''apple'', PyInt 7), (py ''banana'', PyInt 2)] (PNum (PyInt 5)) =
     (Inr [py ''banana''], [(py ''apple'', PyInt 7), (py ''banana'', PyInt 2)]) \<and>
   {py ''banana''} =
     {k. \<exists>v. map_of [(py ''apple'', PyInt 7), (py ''banana'', PyInt 2)] k = Some v \<and>
               ival v < ival (int_of (PNum (PyInt 5)))}"
  using check_low_items_exact [of "PNum (PyInt 5)"
      "[(py ''apple'', PyInt 7), (py ''banana'', PyInt 2)]"]
  by (auto simp: check_low_items_def py_def)

text \<open>
  C8: when no file exists at the path, \<open>load_data(path)\<close> returns without raising and
  leaves the store empty, whatever it held.
\<close>

theorem load_data_missing_file:
  assumes "files fs path = None"
  shows "load_data fs sd path = (Inr (), [])"
  using assms by (simp add: load_data_def)

theorem load_data_missing_file_witness:
  "files \<lparr>files = Map.empty, can_write = (\<lambda>p. True)\<rparr> (py ''missing.json'') = None \<and>
   load_data \<lparr>files = Map.empty, can_write = (\<lambda>p. True)\<rparr> [(py ''apple'', PyInt 7)]
     (py ''missing.json'') = (Inr (), [])"
  using load_data_missing_file [of "\<lparr>files = Map.empty, can_write = (\<lambda>p. True)\<rparr>"
      "py ''missing.json''" "[(py ''apple'', PyInt 7)]"]
  by simp

text \<open>
  C9, as amended. The claim fails for a file with a JSON boolean as a value: \<open>true\<close> and
  \<open>false\<close> parse to \<open>True\<close> and \<open>False\<close>, which pass \<open>isinstance(v, int)\<close>. What holds:
  when the file exists and parses to a value that is not a dict, or to a dict with an
  item whose key is not a \<open>str\<close> or whose value is neither an integer nor a boolean,
  \<open>load_data(path)\<close> raises \<open>ValueError\<close> and the store is as it was before the call.
\<close>

theorem load_data_invalid_format:
  assumes "files fs path = Some (Json data)"
      and "\<not> isinstance_dict data \<or>
           (\<exists>(k, v) \<in> set (items data). \<not> isinstance_str k \<or> \<not> isinstance_int v)"
  shows "raised_ValueError (fst (load_data fs sd path)) \<and> snd (load_data fs sd path) = sd"
  using assms by (auto simp: load_data_def list_all_iff)

theorem load_data_invalid_format_witness:
  "files \<lparr>files = [py ''inventory.json'' \<mapsto>
              Json (PDict [(PStr (py ''apple''), PStr (py ''ten''))])],
          can_write = (\<lambda>p. True)\<rparr> (py ''inventory.json'') =
     Some (Json (PDict [(PStr (py ''apple''), PStr (py ''ten''))])) \<and>
   \<not> isinstance_int (PStr (py ''ten'')) \<and>
   raised_ValueError (fst (load_data
       \<lparr>files = [py ''inventory.json'' \<mapsto>
              Json (PDict [(PStr (py ''apple''), PStr (py ''ten''))])],
        can_write = (\<lambda>p. True)\<rparr> [(py ''banana'', PyInt 2)] (py ''inventory.json''))) \<and>
   snd (load_data
       \<lparr>files = [py ''inventory.json'' \<mapsto>
              Json (PDict [(PStr (py ''apple''), PStr (py ''ten''))])],
        can_write = (\<lambda>p. True)\<rparr> [(py ''banana'', PyInt 2)] (py ''inventory.json'')) =
     [(py ''banana'', PyInt 2)]"
  using load_data_invalid_format [of
      "\<lparr>files = [py ''inventory.json'' \<mapsto>
              Json (PDict [(PStr (py ''apple''), PStr (py ''ten''))])],
        can_write = (\<lambda>p. True)\<rparr>" "py ''inventory.json''"
      "PDict [(PStr (py ''apple''), PStr (py ''ten''))]" "[(py ''banana'', PyInt 2)]"]
  by simp

text \<open>
  C9, counterexample: the file \<open>{"apple": true}\<close> has a value that is not an integer,
  and \<open>load_data\<close> returns normally and replaces the store \<open>{"banana": 2}\<close> by
  \<open>{"apple": True}\<close>.
\<close>

theorem load_data_accepts_bool:
  "load_data
     \<lparr>files = [py ''inventory.json'' \<mapsto>
                Json (PDict [(PStr (py ''apple''), PNum (PyBool True))])],
      can_write = (\<lambda>p. True)\<rparr> [(py ''banana'', PyInt 2)] (py ''inventory.json'') =
     (Inr (), [(py ''apple'', PyBool True)]) \<and>
   \<not> raised_ValueError (fst (load_data
     \<lparr>files = [py ''inventory.json'' \<mapsto>
                Json (PDict [(PStr (py ''apple''), PNum (PyBool True))])],
      can_write = (\<lambda>p. True)\<rparr> [(py ''banana'', PyInt 2)] (py ''inventory.json''))) \<and>
   [(py ''apple'', PyBool True)] \<noteq> [(py ''banana'', PyInt 2)]"
  by (simp add: load_data_def dict_update_def py_def)

text \<open>
  C10: \<open>add_item\<close> stores the name as passed. For a name with leading or trailing
  whitespace around a non-empty core, \<open>add_item(name, qty)\<close> creates or updates the entry
  under the untrimmed name; the entry of the trimmed name is untouched, so \<open>get_qty\<close> of
  the trimmed name returns what it returned before, which is 0 when the trimmed name has
  no entry of its own. (\<open>add_item\<close> returns normally unless \<open>qty\<close> has more than 4300
  digits; then it raises \<open>ValueError\<close> after this update.)
\<close>

theorem add_item_key_not_trimmed:
  assumes "strip name \<noteq> []" and "strip name \<noteq> name"
      and "isinstance_int qty" and "0 \<le> ival (int_of qty)"
  shows "fst (add_item sd (PStr name) qty) =
           (if str_raises (int_of qty)
            then Inl (ValueError ''Exceeds the limit (4300 digits) for integer string conversion'')
            else Inr ()) \<and>
         map_of (snd (add_item sd (PStr name) qty)) name =
           Some (PyInt (ival (dict_get sd name (PyInt 0)) + ival (int_of qty))) \<and>
         map_of (snd (add_item sd (PStr name) qty)) (strip name) = map_of sd (strip name) \<and>
         get_qty (snd (add_item sd (PStr name) qty)) (PStr (strip name)) =
           (fst (get_qty sd (PStr (strip name))), snd (add_item sd (PStr name) qty)) \<and>
         (strip name \<notin> fst ` set sd \<longrightarrow>
            fst (get_qty (snd (add_item sd (PStr name) qty)) (PStr (strip name))) =
              Inr (PyInt 0))"
  using assms
  by (auto simp: add_item_def Let_def get_qty_def dict_get_def update_conv' strip_strip
      dest: absent_map_of split: option.splits)

theorem add_item_key_not_trimmed_witness:
  "strip (py ''  apple '') = py ''apple'' \<and> py ''apple'' \<noteq> [] \<and> py ''apple'' \<noteq> py ''  apple '' \<and>
   isinstance_int (PNum (PyInt 4)) \<and> 0 \<le> ival (int_of (PNum (PyInt 4))) \<and>
   py ''apple'' \<notin> fst ` set ([] :: store) \<and>
   add_item [] (PStr (py ''  apple '')) (PNum (PyInt 4)) = (Inr (), [(py ''  apple '', PyInt 4)]) \<and>
   get_qty (snd (add_item [] (PStr (py ''  apple '')) (PNum (PyInt 4)))) (PStr (py ''apple'')) =
     (Inr (PyInt 0), [(py ''  apple '', PyInt 4)])"
  using add_item_key_not_trimmed [of "py ''  apple ''" "PNum (PyInt 4)" "[]"]
  by (simp add: add_item_def Let_def get_qty_def dict_get_def limit_above_small py_def
      strip_def is_space_def)

end
